theory Spec2Isabelle
  imports Complex_Main
begin

section \<open>Geometry helpers (src/util.js)\<close>

text \<open>
  JavaScript numbers are modelled as follows. Pixel quantities (pointer coordinates,
  widths, translations) are \<^typ>\<open>real\<close>: the arithmetic of the helpers is taken exactly,
  without the rounding of IEEE doubles and without NaN or the infinities. Slide indices
  and the step decision are \<^typ>\<open>int\<close>: the index only ever receives \<open>0\<close>, an integer
  argument, or \<open>active + changeWeight\<close> with \<open>changeWeight\<close> one of \<open>-1\<close>, \<open>0\<close>, \<open>1\<close>.

  A two-element coordinate array \<open>[x, y]\<close> is a pair.
\<close>

type_synonym coords = "real \<times> real"

text \<open>
  \<^verbatim>\<open>diffCoords = (a, b) => ([ (a[0] - b[0]) * -1, (a[1] - b[1]) * -1 ])\<close>
\<close>

definition diffCoords :: "coords \<Rightarrow> coords \<Rightarrow> coords" where
  "diffCoords a b = ((fst a - fst b) * -1, (snd a - snd b) * -1)"

text \<open>
  \<^verbatim>\<open>originForIndex = (n, parentElement) => { if (n === 0) return 0;
     const totalWidth = parentElement.getBoundingClientRect().width;
     return -1 * totalWidth * n; }\<close>

  The only use of \<open>parentElement\<close> is the read of its bounding width, so the width is
  the argument.
\<close>

definition originForIndex :: "int \<Rightarrow> real \<Rightarrow> real" where
  "originForIndex n totalWidth = (if n = 0 then 0 else -1 * totalWidth * of_int n)"

text \<open>
  \<open>changeSlide\<close>, with its local constant \<open>toleranceFr\<close> as the first argument. The
  source binds the constant inside the function: \<open>0.33\<close> in src/util.js,
  \<open>0.15\<close> in the page-width variant of the same function kept next to the second copy of
  the class. Everything else is the source's text, in the source's order:
  \<^verbatim>\<open>if (xDiff === 0) return 0;
  let isNegative = xDiff < 0;
  const tolerance = totalWidth * toleranceFr;
  const overTolerance = tolerance - Math.abs(xDiff) <= 0;
  if (! overTolerance) return 0;
  return isNegative ? 1 : -1;\<close>
\<close>

definition changeSlideFr :: "real \<Rightarrow> real \<Rightarrow> real \<Rightarrow> int" where
  "changeSlideFr toleranceFr xDiff totalWidth =
     (if xDiff = 0 then 0
      else
        let isNegative = xDiff < 0;
            tolerance = totalWidth * toleranceFr;
            overTolerance = (tolerance - \<bar>xDiff\<bar> \<le> 0)
        in if \<not> overTolerance then 0
           else if isNegative then 1 else -1)"

text \<open>\<open>changeSlide\<close> of src/util.js: \<^verbatim>\<open>const toleranceFr = 0.33;\<close>\<close>

definition changeSlide :: "real \<Rightarrow> real \<Rightarrow> int" where
  "changeSlide xDiff totalWidth = changeSlideFr (33 / 100) xDiff totalWidth"

text \<open>The page-width variant: \<^verbatim>\<open>const toleranceFr = 0.15;\<close>\<close>

definition changeSlide_page :: "real \<Rightarrow> real \<Rightarrow> int" where
  "changeSlide_page xDiff totalWidth = changeSlideFr (15 / 100) xDiff totalWidth"


section \<open>The slider (the class \<open>Slider\<close>, container-width variant)\<close>

text \<open>
  The class keeps \<open>this.el\<close>, \<open>this.touchDown\<close> and \<open>this.state = {slidesCount, active,
  diffX}\<close>; the handlers attached by \<open>_attachMoveEvents\<close> share the closure variable
  \<open>touchOrigin\<close>. These are the fields of one record. What the class reads from the page is
  part of it too: \<open>children\<close> is \<open>this.el.children\<close> (slide elements are values of an
  arbitrary type \<open>'e\<close>), and \<open>parentWidth\<close> is
  \<open>this.el.parentElement.getBoundingClientRect().width\<close>. No method changes the list of
  children.
\<close>

record 'e slider =
  children :: "'e list"
  parentWidth :: real
  touchDown :: bool
  slidesCount :: int
  active :: int
  diffX :: real
  touchOrigin :: coords

text \<open>
  Everything a method does besides updating the record is an entry of its output list, in
  the order the source performs it: \<open>this.emit(name, payload)\<close>, the style and class
  writes, and the timer set by \<open>handleTouchEnd\<close>. \<open>undefined\<close>, the value of
  \<open>el.children[n]\<close> outside the list, is \<open>None\<close>.
\<close>

datatype 'e notification =
    Init "'e option" int
  | Change int "'e option"
  | Touch int "'e list" "'e option"

datatype 'e effect =
    Emit "'e notification"
  | SlideWidth 'e real
  | TouchClass bool
  | SlideClass 'e string bool
  | TranslateX real
  | SetTimeout nat

text \<open>
  The result of \<open>new Slider(el)\<close> is a sum, so that a construction that throws is a
  value. \<open>TypeError\<close> is what JavaScript throws when a property of \<open>null\<close> is read. The
  constructor contains no \<open>throw\<close> of its own; \<open>InvalidState\<close> is the failure the
  specification names.
\<close>

datatype error = InvalidState | TypeError

text \<open>\<open>el.children[n]\<close> for an integer \<open>n\<close>.\<close>

definition childAt :: "'e list \<Rightarrow> int \<Rightarrow> 'e option" where
  "childAt els n = (if 0 \<le> n \<and> n < int (length els) then Some (els ! nat n) else None)"

text \<open>The notifications among the effects, in order.\<close>

fun notifications :: "'e effect list \<Rightarrow> 'e notification list" where
  "notifications [] = []"
| "notifications (Emit n # out) = n # notifications out"
| "notifications (_ # out) = notifications out"

text \<open>
  \<^verbatim>\<open>updateIndex(n) {
    if (n < 0 || n >= this.state.slidesCount) { return; }
    this.state.active = n;
    this.emit('change', { index: n, element: this.el.children[n] }); }\<close>
\<close>

definition updateIndex :: "int \<Rightarrow> 'e slider \<Rightarrow> 'e slider \<times> 'e effect list" where
  "updateIndex n s =
     (if n < 0 \<or> n \<ge> slidesCount s then (s, [])
      else (s\<lparr>active := n\<rparr>, [Emit (Change n (childAt (children s) n))]))"

text \<open>\<open>_setSlideWidths\<close>: every child gets the width of the parent element.\<close>

definition setSlideWidths :: "'e slider \<Rightarrow> 'e effect list" where
  "setSlideWidths s = map (\<lambda>slide. SlideWidth slide (parentWidth s)) (children s)"

text \<open>\<open>_cssTouchClass(add)\<close>: \<open>addRemoveCssClass(this.el, 'touch', add)\<close>.\<close>

definition cssTouchClass :: "bool \<Rightarrow> 'e effect list" where
  "cssTouchClass add = [TouchClass add]"

text \<open>
  \<open>_cssActiveClass(index)\<close>: nothing while a touch is in progress; otherwise the child at
  \<open>index\<close> loses \<open>not-in-view\<close> and gains \<open>in-view\<close>, every other child the reverse.
\<close>

definition cssActiveClass :: "int \<Rightarrow> 'e slider \<Rightarrow> 'e effect list" where
  "cssActiveClass index s =
     (if touchDown s then []
      else concat (map (\<lambda>(i, el).
             if index = int i
             then [SlideClass el ''not-in-view'' False, SlideClass el ''in-view'' True]
             else [SlideClass el ''not-in-view'' True, SlideClass el ''in-view'' False])
           (enumerate 0 (children s))))"

text \<open>\<open>_translateSlide(by)\<close>: \<open>this.el.style.transform = translateX(by px)\<close>.\<close>

definition translateSlide :: "real \<Rightarrow> 'e effect list" where
  "translateSlide by = [TranslateX by]"

text \<open>
  \<^verbatim>\<open>_translateFromOrigin(index, by) {
    const originX = originForIndex(index, this.el.parentElement);
    this._translateSlide(by + originX); }\<close>
\<close>

definition translateFromOrigin :: "int \<Rightarrow> real \<Rightarrow> 'e slider \<Rightarrow> 'e effect list" where
  "translateFromOrigin index by s =
     (let originX = originForIndex index (parentWidth s) in translateSlide (by + originX))"

text \<open>
  \<^verbatim>\<open>_returnToOrigin() {
    const { active } = this.state;
    const origin = originForIndex(active, this.el.parentElement);
    this._translateSlide(origin); }\<close>
\<close>

definition returnToOrigin :: "'e slider \<Rightarrow> 'e effect list" where
  "returnToOrigin s =
     (let origin = originForIndex (active s) (parentWidth s) in translateSlide origin)"

text \<open>
  \<open>handleTouchStart\<close>. The argument is the pair the handler builds from the event
  (\<open>touches[0]\<close> when present, the mouse position otherwise).
\<close>

definition handleTouchStart :: "coords \<Rightarrow> 'e slider \<Rightarrow> 'e slider \<times> 'e effect list" where
  "handleTouchStart c s =
     (let s1 = s\<lparr>touchDown := True, touchOrigin := c\<rparr>
      in (s1, cssTouchClass True
              @ [Emit (Touch (active s1) (children s1) (childAt (children s1) (active s1)))]))"

text \<open>
  \<^verbatim>\<open>const changeWeight = changeSlide(this.state.diffX, this.el.parentElement);
  this.updateIndex(this.state.active + changeWeight);
  this._cssTouchClass(false);
  this._returnToOrigin();
  setTimeout(() => this._cssActiveClass(this.state.active), 300 + 100);
  this.touchDown = false;
  this.state.diffX = 0;\<close>
\<close>

definition handleTouchEnd :: "'e slider \<Rightarrow> 'e slider \<times> 'e effect list" where
  "handleTouchEnd s =
     (let changeWeight = changeSlide (diffX s) (parentWidth s);
          (s1, out1) = updateIndex (active s + changeWeight) s;
          out2 = cssTouchClass False;
          out3 = returnToOrigin s1;
          out4 = [SetTimeout (300 + 100)]
      in (s1\<lparr>touchDown := False, diffX := 0\<rparr>, out1 @ out2 @ out3 @ out4))"

text \<open>The callback of that timer, whenever it runs: \<open>this._cssActiveClass(this.state.active)\<close>.\<close>

definition timerFired :: "'e slider \<Rightarrow> 'e slider \<times> 'e effect list" where
  "timerFired s = (s, cssActiveClass (active s) s)"

text \<open>
  \<^verbatim>\<open>if (! this.touchDown) return;
  const [diffX] = diffCoords(touchOrigin, movedTo);
  this.state.diffX = diffX;
  if (diffX === 0) return;
  this._translateFromOrigin(this.state.active, diffX);\<close>
\<close>

definition handleTouchMove :: "coords \<Rightarrow> 'e slider \<Rightarrow> 'e slider \<times> 'e effect list" where
  "handleTouchMove movedTo s =
     (if \<not> touchDown s then (s, [])
      else
        let dx = fst (diffCoords (touchOrigin s) movedTo);
            s1 = s\<lparr>diffX := dx\<rparr>
        in if dx = 0 then (s1, [])
           else (s1, translateFromOrigin (active s1) dx s1))"

text \<open>
  \<open>handleResize\<close> calls \<open>_setSlideWidths\<close>; the argument is the width the parent element
  has from then on.
\<close>

definition handleResize :: "real \<Rightarrow> 'e slider \<Rightarrow> 'e slider \<times> 'e effect list" where
  "handleResize w s = (let s1 = s\<lparr>parentWidth := w\<rparr> in (s1, setSlideWidths s1))"

text \<open>
  The constructor, for a container with the given children whose parent has the given
  width: the state literal, \<open>_setSlideWidths\<close>, the handlers (\<open>touchOrigin = [0, 0]\<close>),
  \<open>_cssActiveClass(0)\<close>, \<open>updateIndex(0)\<close>, and the \<open>init\<close> notification with
  \<open>el.children[0]\<close> and index \<open>0\<close>.
\<close>

definition constructor :: "'e list \<Rightarrow> real \<Rightarrow> error + ('e slider \<times> 'e effect list)" where
  "constructor els w =
     (let s0 = \<lparr>children = els, parentWidth = w, touchDown = False,
                slidesCount = int (length els), active = 0, diffX = 0,
                touchOrigin = (0, 0)\<rparr>;
          out1 = setSlideWidths s0;
          out2 = cssActiveClass 0 s0;
          (s1, out3) = updateIndex 0 s0;
          out4 = [Emit (Init (childAt els 0) 0)]
      in Inr (s1, out1 @ out2 @ out3 @ out4))"

text \<open>
  \<open>new Slider(el)\<close> for any container, with or without a parent element. After the state
  literal, the first thing the constructor does is \<open>_setSlideWidths\<close>, whose first
  statement is
  \<^verbatim>\<open>const parentWidth = this.el.parentElement.getBoundingClientRect().width;\<close>
  For a container that is not attached, \<open>parentElement\<close> is \<open>null\<close> and this read throws
  a \<open>TypeError\<close>, before any style is written or any notification emitted, whatever the
  children are. The second argument is the width of the parent element, \<open>None\<close> when there
  is no parent element.
\<close>

definition newSlider :: "'e list \<Rightarrow> real option \<Rightarrow> error + ('e slider \<times> 'e effect list)" where
  "newSlider els parent =
     (case parent of
        None \<Rightarrow> Inl TypeError
      | Some w \<Rightarrow> constructor els w)"


section \<open>Sequences of operations\<close>

text \<open>
  What can happen to a slider after construction: a call of \<open>updateIndex\<close>, the three
  gesture handlers, a resize, and the timer callback.
\<close>

datatype op =
    SetActiveIndex int
  | BeginGesture coords
  | UpdateGesture coords
  | EndGesture
  | Resize real
  | TimerFired

fun step :: "op \<Rightarrow> 'e slider \<Rightarrow> 'e slider \<times> 'e effect list" where
  "step (SetActiveIndex n) s = updateIndex n s"
| "step (BeginGesture c) s = handleTouchStart c s"
| "step (UpdateGesture c) s = handleTouchMove c s"
| "step EndGesture s = handleTouchEnd s"
| "step (Resize w) s = handleResize w s"
| "step TimerFired s = timerFired s"

fun run :: "op list \<Rightarrow> 'e slider \<Rightarrow> 'e slider \<times> 'e effect list" where
  "run [] s = (s, [])"
| "run (x # xs) s =
     (let (s1, out1) = step x s; (s2, out2) = run xs s1 in (s2, out1 @ out2))"

text \<open>The invariant of the specification: the active index is the index of a slide.\<close>

definition activeInRange :: "'e slider \<Rightarrow> bool" where
  "activeInRange s = (0 \<le> active s \<and> active s < slidesCount s)"

text \<open>The specification's end-to-end fixture: three slides in a parent 300 pixels wide.\<close>

definition threeSlides :: "string slider" where
  "threeSlides = \<lparr>children = [''a'', ''b'', ''c''], parentWidth = 300, touchDown = False,
                   slidesCount = 3, active = 0, diffX = 0, touchOrigin = (0, 0)\<rparr>"


section \<open>Observing a run\<close>

text \<open>
  What a run shows at each operation: \<open>diffX\<close> and \<open>active\<close> after it, the value of
  \<open>changeWeight\<close> when the operation is \<open>handleTouchEnd\<close>, and the effects it performed.
\<close>

definition decision :: "op \<Rightarrow> 'e slider \<Rightarrow> int option" where
  "decision x s =
     (case x of EndGesture \<Rightarrow> Some (changeSlide (diffX s) (parentWidth s)) | _ \<Rightarrow> None)"

fun observe :: "op list \<Rightarrow> 'e slider \<Rightarrow> (real \<times> int \<times> int option \<times> 'e effect list) list" where
  "observe [] s = []"
| "observe (x # xs) s =
     (let (s1, out1) = step x s
      in (diffX s1, active s1, decision x s, out1) # observe xs s1)"

text \<open>One gesture: press at \<open>origin\<close>, move through \<open>samples\<close>, release.\<close>

definition gesture :: "coords \<Rightarrow> coords list \<Rightarrow> op list" where
  "gesture origin samples = BeginGesture origin # map UpdateGesture samples @ [EndGesture]"

text \<open>
  Erasing the vertical coordinate: of the sample an operation carries, and of the origin a
  slider remembers.
\<close>

fun x_only :: "op \<Rightarrow> op" where
  "x_only (BeginGesture c) = BeginGesture (fst c, 0)"
| "x_only (UpdateGesture c) = UpdateGesture (fst c, 0)"
| "x_only x = x"

definition forget_y :: "'e slider \<Rightarrow> 'e slider" where
  "forget_y s = s\<lparr>touchOrigin := (fst (touchOrigin s), 0)\<rparr>"


section \<open>Auxiliary lemmas\<close>

lemma notifications_append:
  "notifications (xs @ ys) = notifications xs @ notifications ys"
  by (induction xs rule: notifications.induct) simp_all

lemma notifications_SlideWidth: "notifications (map (\<lambda>slide. SlideWidth slide w) els) = []"
  by (induction els) simp_all

lemma notifications_setSlideWidths: "notifications (setSlideWidths s) = []"
  by (simp add: setSlideWidths_def notifications_SlideWidth)

lemma notifications_concat_none:
  "(\<And>x. x \<in> set xs \<Longrightarrow> notifications (f x) = []) \<Longrightarrow> notifications (concat (map f xs)) = []"
  by (induction xs) (simp_all add: notifications_append)

lemma notifications_cssActiveClass: "notifications (cssActiveClass i s) = []"
  unfolding cssActiveClass_def
  by (auto intro!: notifications_concat_none)

lemma step_slidesCount: "slidesCount (fst (step x s)) = slidesCount s"
  by (cases x)
     (simp_all add: updateIndex_def handleTouchStart_def handleTouchMove_def
        handleTouchEnd_def handleResize_def timerFired_def Let_def split_def)

lemma step_activeInRange: "activeInRange s \<Longrightarrow> activeInRange (fst (step x s))"
  by (cases x)
     (simp_all add: activeInRange_def updateIndex_def handleTouchStart_def handleTouchMove_def
        handleTouchEnd_def handleResize_def timerFired_def Let_def split_def)

lemma step_no_slides:
  "active s = 0 \<and> slidesCount s = 0 \<Longrightarrow>
     active (fst (step x s)) = 0 \<and> slidesCount (fst (step x s)) = 0"
  by (cases x)
     (simp_all add: updateIndex_def handleTouchStart_def handleTouchMove_def
        handleTouchEnd_def handleResize_def timerFired_def Let_def split_def)

lemma run_activeInRange: "activeInRange s \<Longrightarrow> activeInRange (fst (run ops s))"
proof (induction ops arbitrary: s)
  case Nil
  then show ?case by simp
next
  case (Cons x xs)
  from Cons.prems have "activeInRange (fst (step x s))" by (rule step_activeInRange)
  then have "activeInRange (fst (run xs (fst (step x s))))" by (rule Cons.IH)
  then show ?case by (simp add: split_def Let_def)
qed

lemma run_no_slides:
  "active s = 0 \<and> slidesCount s = 0 \<Longrightarrow>
     active (fst (run ops s)) = 0 \<and> slidesCount (fst (run ops s)) = 0"
proof (induction ops arbitrary: s)
  case Nil
  then show ?case by simp
next
  case (Cons x xs)
  from Cons.prems have "active (fst (step x s)) = 0 \<and> slidesCount (fst (step x s)) = 0"
    by (rule step_no_slides)
  then have "active (fst (run xs (fst (step x s)))) = 0
      \<and> slidesCount (fst (run xs (fst (step x s)))) = 0" by (rule Cons.IH)
  then show ?case by (simp add: split_def Let_def)
qed

lemma constructor_state:
  "constructor els w =
     Inr (\<lparr>children = els, parentWidth = w, touchDown = False,
            slidesCount = int (length els), active = 0, diffX = 0, touchOrigin = (0, 0)\<rparr>,
          setSlideWidths \<lparr>children = els, parentWidth = w, touchDown = False,
            slidesCount = int (length els), active = 0, diffX = 0, touchOrigin = (0, 0)\<rparr>
          @ cssActiveClass 0 \<lparr>children = els, parentWidth = w, touchDown = False,
            slidesCount = int (length els), active = 0, diffX = 0, touchOrigin = (0, 0)\<rparr>
          @ (if els = [] then [] else [Emit (Change 0 (childAt els 0))])
          @ [Emit (Init (childAt els 0) 0)])"
  by (simp add: constructor_def updateIndex_def Let_def)

lemma constructor_threeSlides:
  "constructor [''a'', ''b'', ''c''] 300 =
     Inr (threeSlides,
          [SlideWidth ''a'' 300, SlideWidth ''b'' 300, SlideWidth ''c'' 300,
           SlideClass ''a'' ''not-in-view'' False, SlideClass ''a'' ''in-view'' True,
           SlideClass ''b'' ''not-in-view'' True, SlideClass ''b'' ''in-view'' False,
           SlideClass ''c'' ''not-in-view'' True, SlideClass ''c'' ''in-view'' False,
           Emit (Change 0 (Some ''a'')), Emit (Init (Some ''a'') 0)])"
  by (simp add: constructor_def threeSlides_def updateIndex_def Let_def setSlideWidths_def
      cssActiveClass_def childAt_def)

lemma forget_y_eq:
  "forget_y s = forget_y s' \<longleftrightarrow>
     children s = children s' \<and> parentWidth s = parentWidth s' \<and> touchDown s = touchDown s'
     \<and> slidesCount s = slidesCount s' \<and> active s = active s' \<and> diffX s = diffX s'
     \<and> fst (touchOrigin s) = fst (touchOrigin s')"
  by (cases s; cases s') (simp add: forget_y_def)

lemma step_forget_y:
  "step (x_only a) (forget_y s) = (forget_y (fst (step a s)), snd (step a s))"
proof (cases a)
  case (SetActiveIndex n)
  then show ?thesis by (simp add: forget_y_def updateIndex_def)
next
  case (BeginGesture c)
  then show ?thesis by (simp add: forget_y_def handleTouchStart_def Let_def)
next
  case (UpdateGesture c)
  then show ?thesis
    by (simp add: forget_y_def handleTouchMove_def Let_def diffCoords_def
        translateFromOrigin_def)
next
  case EndGesture
  then show ?thesis
    by (simp add: forget_y_def handleTouchEnd_def updateIndex_def returnToOrigin_def Let_def)
next
  case (Resize w)
  then show ?thesis by (simp add: forget_y_def handleResize_def setSlideWidths_def Let_def)
next
  case TimerFired
  then show ?thesis by (simp add: forget_y_def timerFired_def cssActiveClass_def)
qed

lemma decision_forget_y: "decision (x_only a) (forget_y s) = decision a s"
  by (cases a) (simp_all add: decision_def forget_y_def)

lemma step_x_only:
  assumes "x_only a = x_only b" and "forget_y s = forget_y s'"
  shows "forget_y (fst (step a s)) = forget_y (fst (step b s'))
         \<and> snd (step a s) = snd (step b s') \<and> decision a s = decision b s'"
proof -
  have "(forget_y (fst (step a s)), snd (step a s)) = step (x_only a) (forget_y s)"
    by (simp add: step_forget_y)
  also have "\<dots> = step (x_only b) (forget_y s')" using assms by simp
  also have "\<dots> = (forget_y (fst (step b s')), snd (step b s'))" by (simp add: step_forget_y)
  finally have "forget_y (fst (step a s)) = forget_y (fst (step b s'))
      \<and> snd (step a s) = snd (step b s')" by simp
  moreover have "decision a s = decision b s'"
    using assms decision_forget_y [of a s] decision_forget_y [of b s'] by simp
  ultimately show ?thesis by simp
qed

lemma observe_Cons:
  "observe (x # xs) s =
     (diffX (fst (step x s)), active (fst (step x s)), decision x s, snd (step x s))
       # observe xs (fst (step x s))"
  by (simp add: split_def Let_def)

lemma observe_x_only:
  "map x_only ops = map x_only ops' \<Longrightarrow> forget_y s = forget_y s' \<Longrightarrow>
     observe ops s = observe ops' s'"
proof (induction ops arbitrary: ops' s s')
  case Nil
  then show ?case by simp
next
  case (Cons a ops)
  from Cons.prems(1) obtain b ops'' where ops': "ops' = b # ops''"
    and ab: "x_only a = x_only b" and rest: "map x_only ops = map x_only ops''"
    by (cases ops') simp_all
  have eq: "forget_y (fst (step a s)) = forget_y (fst (step b s'))"
    and out: "snd (step a s) = snd (step b s')"
    and dec: "decision a s = decision b s'"
    using step_x_only [OF ab Cons.prems(2)] by blast+
  have tl: "observe ops (fst (step a s)) = observe ops'' (fst (step b s'))"
    by (rule Cons.IH [OF rest eq])
  have dx: "diffX (fst (step a s)) = diffX (fst (step b s'))"
    and ac: "active (fst (step a s)) = active (fst (step b s'))"
    using eq unfolding forget_y_eq by blast+
  show ?case unfolding ops' observe_Cons tl dx ac out dec ..
qed

lemma map_x_only_UpdateGesture:
  "map fst xs = map fst ys \<Longrightarrow>
     map x_only (map UpdateGesture xs) = map x_only (map UpdateGesture ys)"
proof (induction xs arbitrary: ys)
  case Nil
  then show ?case by simp
next
  case (Cons x xs)
  from Cons.prems obtain y ys' where "ys = y # ys'" and "fst x = fst y"
    and "map fst xs = map fst ys'" by (cases ys) simp_all
  then show ?case using Cons.IH [of ys'] by simp
qed

section \<open>The claims\<close>

text \<open>
  C1. For every drag delta \<open>d\<close>, track width \<open>w\<close> and tolerance fraction \<open>t\<close> in \<open>(0, 1]\<close>,
  the decision is \<open>0\<close> if \<open>d = 0\<close>; it is \<open>0\<close> whenever \<open>\<bar>d\<bar> < w * t\<close>; and otherwise it is
  \<open>+1\<close> if \<open>d < 0\<close> and \<open>-1\<close> if \<open>d > 0\<close>. The two fractions the source uses, \<open>0.33\<close> and
  \<open>0.15\<close>, lie in the interval, so the statement covers \<open>changeSlide\<close> and its page-width
  variant.
\<close>

theorem changeSlide_decision:
  assumes "0 < t" and "t \<le> 1"
  shows "(d = 0 \<longrightarrow> changeSlideFr t d w = 0)
       \<and> (\<bar>d\<bar> < w * t \<longrightarrow> changeSlideFr t d w = 0)
       \<and> (d \<noteq> 0 \<and> \<not> \<bar>d\<bar> < w * t \<longrightarrow>
            (d < 0 \<longrightarrow> changeSlideFr t d w = 1) \<and> (0 < d \<longrightarrow> changeSlideFr t d w = -1))"
  by (auto simp: changeSlideFr_def Let_def)

theorem changeSlide_decision_witness:
  "changeSlide 0 300 = 0 \<and> changeSlide (-60) 300 = 0 \<and> changeSlide 60 300 = 0
     \<and> changeSlide (-120) 300 = 1 \<and> changeSlide 120 300 = -1 \<and> changeSlide (-99) 300 = 1
     \<and> changeSlide_page (-60) 300 = 1"
  using changeSlide_decision [of "33 / 100" 0 300]
        changeSlide_decision [of "33 / 100" "-60" 300]
        changeSlide_decision [of "33 / 100" 60 300]
        changeSlide_decision [of "33 / 100" "-120" 300]
        changeSlide_decision [of "33 / 100" 120 300]
        changeSlide_decision [of "33 / 100" "-99" 300]
        changeSlide_decision [of "15 / 100" "-60" 300]
  by (simp add: changeSlide_def changeSlide_page_def)

text \<open>
  C2. For every \<open>n\<close> with \<open>0 \<le> n < slidesCount\<close>, \<open>updateIndex n\<close> sets \<open>active\<close> to \<open>n\<close>
  and emits exactly one \<open>change\<close> notification, carrying \<open>n\<close> and \<open>el.children[n]\<close> (the
  slide at \<open>n\<close> when \<open>slidesCount\<close> is the number of children). For \<open>n < 0\<close> or
  \<open>n \<ge> slidesCount\<close> it returns with the state as it was and nothing emitted. No other
  method assigns \<open>active\<close>: the touch-start, touch-move and resize handlers and the timer
  callback leave it as it is, and \<open>handleTouchEnd\<close> leaves it as its one call of
  \<open>updateIndex\<close> leaves it.
\<close>

theorem updateIndex_guard:
  "(0 \<le> n \<and> n < slidesCount s \<longrightarrow>
       updateIndex n s = (s\<lparr>active := n\<rparr>, [Emit (Change n (childAt (children s) n))])
       \<and> notifications (snd (updateIndex n s)) = [Change n (childAt (children s) n)]
       \<and> (slidesCount s = int (length (children s)) \<longrightarrow>
            childAt (children s) n = Some (children s ! nat n)))
   \<and> (n < 0 \<or> slidesCount s \<le> n \<longrightarrow> updateIndex n s = (s, []))
   \<and> active (fst (handleTouchStart c s)) = active s
   \<and> active (fst (handleTouchMove c s)) = active s
   \<and> active (fst (handleResize w s)) = active s
   \<and> active (fst (timerFired s)) = active s
   \<and> active (fst (handleTouchEnd s))
       = active (fst (updateIndex (active s + changeSlide (diffX s) (parentWidth s)) s))"
  by (simp add: updateIndex_def childAt_def handleTouchStart_def handleTouchMove_def
      handleResize_def timerFired_def handleTouchEnd_def Let_def split_def)

theorem updateIndex_guard_witness:
  "updateIndex 1 threeSlides = (threeSlides\<lparr>active := 1\<rparr>, [Emit (Change 1 (Some ''b''))])
   \<and> notifications (snd (updateIndex 1 threeSlides)) = [Change 1 (Some ''b'')]
   \<and> updateIndex 3 threeSlides = (threeSlides, [])
   \<and> updateIndex (-1) threeSlides = (threeSlides, [])"
  using updateIndex_guard [of 1 threeSlides] updateIndex_guard [of 3 threeSlides]
        updateIndex_guard [of "-1" threeSlides]
  by (simp add: threeSlides_def childAt_def)

text \<open>
  C3, as the code has it. For every slider constructed over at least one slide and every
  sequence of operations after construction, \<open>0 \<le> active < slidesCount\<close> holds after
  each of them. A slider constructed over no slide has \<open>active = 0 = slidesCount\<close>
  throughout.
\<close>

theorem active_in_range_invariant:
  assumes "constructor els w = Inr (s0, out0)"
  shows "if els = [] then active (fst (run ops s0)) = 0 \<and> slidesCount (fst (run ops s0)) = 0
         else activeInRange (fst (run ops s0))"
proof (cases "els = []")
  case True
  with assms have "active s0 = 0 \<and> slidesCount s0 = 0"
    by (auto simp add: constructor_state)
  then show ?thesis using True by (simp add: run_no_slides)
next
  case False
  with assms have "activeInRange s0"
    by (auto simp add: constructor_state activeInRange_def)
  then show ?thesis using False by (simp add: run_activeInRange)
qed

theorem active_in_range_invariant_witness:
  "activeInRange (fst (run [BeginGesture (100, 0), UpdateGesture (-20, 0), EndGesture] threeSlides))
   \<and> active (fst (run [BeginGesture (100, 0), UpdateGesture (-20, 0), EndGesture] threeSlides)) = 1"
  using active_in_range_invariant [OF constructor_threeSlides,
          of "[BeginGesture (100, 0), UpdateGesture (-20, 0), EndGesture]"]
  by (simp add: threeSlides_def handleTouchStart_def handleTouchMove_def handleTouchEnd_def
      updateIndex_def changeSlide_def changeSlideFr_def diffCoords_def Let_def split_def)

text \<open>
  The constructor accepts a container with no children: it returns a slider whose
  \<open>active\<close> is \<open>0\<close> and whose \<open>slidesCount\<close> is \<open>0\<close>, so the index is not below the count.
\<close>

theorem active_out_of_range_no_slides:
  "constructor ([] :: string list) 300 =
     Inr (\<lparr>children = [], parentWidth = 300, touchDown = False, slidesCount = 0,
            active = 0, diffX = 0, touchOrigin = (0, 0)\<rparr>, [Emit (Init None 0)])
   \<and> \<not> activeInRange \<lparr>children = ([] :: string list), parentWidth = 300, touchDown = False,
            slidesCount = 0, active = 0, diffX = 0, touchOrigin = (0, 0)\<rparr>"
  by (simp add: constructor_def updateIndex_def Let_def setSlideWidths_def
      cssActiveClass_def childAt_def activeInRange_def)

text \<open>
  C4. Two calls of \<open>handleTouchEnd\<close> in a row, evaluated after a drag that advanced the
  three-slide slider to index \<open>1\<close>: the second call leaves \<open>active\<close> at \<open>1\<close>, and it emits
  a \<open>change\<close> notification for index \<open>1\<close> again, because it calls \<open>updateIndex (1 + 0)\<close>
  and \<open>updateIndex\<close> emits for every index in range.
\<close>

theorem handleTouchEnd_twice_emits_change:
  "active (fst (run [BeginGesture (100, 0), UpdateGesture (-20, 0), EndGesture] threeSlides)) = 1
   \<and> diffX (fst (run [BeginGesture (100, 0), UpdateGesture (-20, 0), EndGesture] threeSlides)) = 0
   \<and> active (fst (handleTouchEnd
        (fst (run [BeginGesture (100, 0), UpdateGesture (-20, 0), EndGesture] threeSlides)))) = 1
   \<and> snd (handleTouchEnd
        (fst (run [BeginGesture (100, 0), UpdateGesture (-20, 0), EndGesture] threeSlides)))
       = [Emit (Change 1 (Some ''b'')), TouchClass False, TranslateX (-300), SetTimeout 400]"
  by (simp add: threeSlides_def handleTouchStart_def handleTouchMove_def handleTouchEnd_def
      updateIndex_def changeSlide_def changeSlideFr_def diffCoords_def Let_def split_def
      translateFromOrigin_def translateSlide_def originForIndex_def returnToOrigin_def
      cssTouchClass_def childAt_def)

text \<open>
  C5, as the code has it. Construction never fails with \<open>InvalidState\<close>: the constructor
  checks neither the number of slides nor an initial index, and takes no initial index.
  For a container that has a parent element it succeeds for every list of children, the
  empty one too, with \<open>active = 0\<close> and \<open>slidesCount\<close> the number of children; over no
  children it emits only \<open>init\<close> with an undefined element and index \<open>0\<close>, otherwise
  \<open>change\<close> for index \<open>0\<close> and then \<open>init\<close>, both carrying the first child. For a
  container without a parent element it fails with a \<open>TypeError\<close>, whatever the children.
\<close>

theorem construction_outcome:
  "newSlider els parent \<noteq> Inl InvalidState
   \<and> newSlider els None = Inl TypeError
   \<and> (\<exists>s out. newSlider els (Some w) = Inr (s, out)
        \<and> active s = 0 \<and> slidesCount s = int (length els)
        \<and> notifications out =
            (if els = [] then [Init None 0]
             else [Change 0 (Some (hd els)), Init (Some (hd els)) 0]))"
proof -
  have "newSlider els parent \<noteq> Inl InvalidState"
    by (cases parent) (simp_all add: newSlider_def constructor_state)
  moreover have "newSlider els None = Inl TypeError"
    by (simp add: newSlider_def)
  moreover have "\<exists>s out. newSlider els (Some w) = Inr (s, out)
        \<and> active s = 0 \<and> slidesCount s = int (length els)
        \<and> notifications out =
            (if els = [] then [Init None 0]
             else [Change 0 (Some (hd els)), Init (Some (hd els)) 0])"
    by (cases els)
       (simp_all add: newSlider_def constructor_state notifications_append
          notifications_setSlideWidths notifications_cssActiveClass childAt_def)
  ultimately show ?thesis by blast
qed

theorem construction_outcome_witness:
  "newSlider [''a'', ''b'', ''c''] None = Inl TypeError
   \<and> newSlider ([] :: string list) None = Inl TypeError
   \<and> (\<exists>s out. newSlider [''a'', ''b'', ''c''] (Some 300) = Inr (s, out)
        \<and> active s = 0 \<and> slidesCount s = 3
        \<and> notifications out = [Change 0 (Some ''a''), Init (Some ''a'') 0])
   \<and> (\<exists>s out. newSlider ([] :: string list) (Some 300) = Inr (s, out)
        \<and> active s = 0 \<and> slidesCount s = 0
        \<and> notifications out = [Init None 0])"
  using construction_outcome [of "[''a'', ''b'', ''c'']" None 300]
        construction_outcome [of "[] :: string list" None 300]
  by simp

text \<open>
  Construction over no children, in a parent 300 wide, returns a slider, not
  \<open>InvalidState\<close>.
\<close>

theorem constructor_no_slides_succeeds:
  "newSlider ([] :: string list) (Some 300) \<noteq> Inl InvalidState
   \<and> newSlider ([] :: string list) (Some 300) =
       Inr (\<lparr>children = [], parentWidth = 300, touchDown = False, slidesCount = 0,
              active = 0, diffX = 0, touchOrigin = (0, 0)\<rparr>, [Emit (Init None 0)])"
  by (simp add: newSlider_def constructor_def updateIndex_def Let_def setSlideWidths_def
      cssActiveClass_def childAt_def)

text \<open>
  C6. When the index \<open>handleTouchEnd\<close> asks for, \<open>active + changeWeight\<close>, is out of bounds
  (the last slide with decision \<open>+1\<close>, the first with \<open>-1\<close>), \<open>active\<close> stays as it is, no
  \<open>change\<close> notification is emitted, the track is translated to
  \<open>originForIndex active parentWidth\<close>, and \<open>diffX\<close> is \<open>0\<close> and \<open>touchDown\<close> false
  afterwards.
\<close>

theorem handleTouchEnd_out_of_bounds:
  assumes "active s + changeSlide (diffX s) (parentWidth s) < 0
           \<or> slidesCount s \<le> active s + changeSlide (diffX s) (parentWidth s)"
  shows "handleTouchEnd s =
           (s\<lparr>touchDown := False, diffX := 0\<rparr>,
            [TouchClass False, TranslateX (originForIndex (active s) (parentWidth s)),
             SetTimeout 400])"
  using assms
  by (auto simp add: handleTouchEnd_def updateIndex_def Let_def cssTouchClass_def
      returnToOrigin_def translateSlide_def)

theorem handleTouchEnd_out_of_bounds_witness:
  "changeSlide (-120) 300 = 1
   \<and> handleTouchEnd (threeSlides\<lparr>touchDown := True, active := 2, diffX := -120\<rparr>)
       = (threeSlides\<lparr>touchDown := False, active := 2, diffX := 0\<rparr>,
          [TouchClass False, TranslateX (-600), SetTimeout 400])
   \<and> handleTouchEnd (threeSlides\<lparr>touchDown := True, diffX := 120\<rparr>)
       = (threeSlides, [TouchClass False, TranslateX 0, SetTimeout 400])"
  using handleTouchEnd_out_of_bounds [of "threeSlides\<lparr>touchDown := True, active := 2, diffX := -120\<rparr>"]
        handleTouchEnd_out_of_bounds [of "threeSlides\<lparr>touchDown := True, diffX := 120\<rparr>"]
  by (simp add: threeSlides_def changeSlide_def changeSlideFr_def originForIndex_def)

text \<open>
  C7. \<open>handleTouchMove\<close> does nothing while \<open>touchDown\<close> is false. Otherwise it sets
  \<open>diffX\<close> to the first component \<open>dx\<close> of \<open>diffCoords touchOrigin sample\<close> and, when \<open>dx\<close>
  is not \<open>0\<close>, translates the track to \<open>originForIndex active parentWidth + dx\<close>. From any
  slider at index \<open>0\<close> in a parent 300 wide: after a press at \<open>(100, 0)\<close> and a move to
  \<open>(40, 0)\<close>, \<open>diffX\<close> is \<open>-60\<close>; the release then leaves \<open>active\<close> at \<open>0\<close> and translates
  the track to \<open>0\<close>.
\<close>

theorem handleTouchMove_contract:
  "(\<not> touchDown s \<longrightarrow> handleTouchMove c s = (s, []))
   \<and> (touchDown s \<longrightarrow>
        handleTouchMove c s =
          (s\<lparr>diffX := fst (diffCoords (touchOrigin s) c)\<rparr>,
           if fst (diffCoords (touchOrigin s) c) = 0 then []
           else [TranslateX (originForIndex (active s) (parentWidth s)
                             + fst (diffCoords (touchOrigin s) c))]))
   \<and> (active s = 0 \<and> parentWidth s = 300 \<longrightarrow>
        diffX (fst (run [BeginGesture (100, 0), UpdateGesture (40, 0)] s)) = -60
        \<and> active (fst (run [BeginGesture (100, 0), UpdateGesture (40, 0), EndGesture] s)) = 0
        \<and> returnToOrigin (fst (run [BeginGesture (100, 0), UpdateGesture (40, 0), EndGesture] s))
            = [TranslateX 0]
        \<and> TranslateX 0 \<in> set (snd (handleTouchEnd
             (fst (run [BeginGesture (100, 0), UpdateGesture (40, 0)] s)))))"
  by (auto simp add: handleTouchMove_def Let_def translateFromOrigin_def translateSlide_def
     handleTouchStart_def handleTouchEnd_def diffCoords_def updateIndex_def changeSlide_def
     changeSlideFr_def returnToOrigin_def originForIndex_def cssTouchClass_def split_def)

theorem handleTouchMove_contract_witness:
  "handleTouchMove (40, 0) threeSlides = (threeSlides, [])
   \<and> handleTouchMove (40, 0) (threeSlides\<lparr>touchDown := True, touchOrigin := (100, 0)\<rparr>)
       = (threeSlides\<lparr>touchDown := True, diffX := -60, touchOrigin := (100, 0)\<rparr>,
          [TranslateX (-60)])
   \<and> diffX (fst (run [BeginGesture (100, 0), UpdateGesture (40, 0)] threeSlides)) = -60
   \<and> active (fst (run [BeginGesture (100, 0), UpdateGesture (40, 0), EndGesture] threeSlides)) = 0
   \<and> TranslateX 0 \<in> set (snd (handleTouchEnd
        (fst (run [BeginGesture (100, 0), UpdateGesture (40, 0)] threeSlides))))"
  using handleTouchMove_contract [of threeSlides "(40, 0)"]
        handleTouchMove_contract
          [of "threeSlides\<lparr>touchDown := True, touchOrigin := (100, 0)\<rparr>" "(40, 0)"]
  by (simp add: threeSlides_def diffCoords_def originForIndex_def)

text \<open>
  C8. \<open>originForIndex 0 w = 0\<close> for every width \<open>w\<close>, and for every index \<open>n \<ge> 0\<close> and
  width \<open>w \<ge> 0\<close> the rest offset is \<open>- n * w\<close>.
\<close>

theorem originForIndex_contract:
  "originForIndex 0 w = 0
     \<and> (0 \<le> n \<and> 0 \<le> w' \<longrightarrow> originForIndex n w' = - of_int n * w')"
  by (simp add: originForIndex_def)

theorem originForIndex_contract_witness:
  "originForIndex 0 300 = 0 \<and> originForIndex 2 300 = -600 \<and> originForIndex 0 0 = 0"
  using originForIndex_contract [of 300 2 300] originForIndex_contract [of 300 0 0]
  by simp

text \<open>
  C9. \<open>diffCoords\<close> is antisymmetric, \<open>diffCoords a b = - diffCoords b a\<close> componentwise,
  it is \<open>(0, 0)\<close> on equal arguments, and a pointer that moved left of the origin gives a
  negative first component.
\<close>

theorem diffCoords_antisymmetric:
  "diffCoords a b = (- fst (diffCoords b a), - snd (diffCoords b a))
     \<and> diffCoords a a = (0, 0)
     \<and> (fst b < fst a \<longrightarrow> fst (diffCoords a b) < 0)"
  by (simp add: diffCoords_def)

theorem diffCoords_antisymmetric_witness:
  "diffCoords (100, 0) (40, 7) = (-60, 7) \<and> diffCoords (40, 7) (100, 0) = (60, -7)
     \<and> diffCoords (100, 0) (100, 0) = (0, 0)"
  using diffCoords_antisymmetric [of "(100, 0)" "(40, 7)"]
        diffCoords_antisymmetric [of "(40, 7)" "(100, 0)"]
  by (simp add: diffCoords_def)

text \<open>
  C10. The vertical coordinates of a gesture have no effect: two gestures from the same
  slider whose origins and samples agree in their horizontal coordinates show the same
  \<open>diffX\<close> and \<open>active\<close> after every operation, the same decision at the release, and the
  same effects, the requested translations among them.
\<close>

theorem gesture_ignores_y:
  assumes "fst o1 = fst o2" and "map fst xs = map fst ys"
  shows "observe (gesture o1 xs) s = observe (gesture o2 ys) s"
proof -
  have "map x_only (gesture o1 xs) = map x_only (gesture o2 ys)"
    using assms(1) map_x_only_UpdateGesture [OF assms(2)] by (simp add: gesture_def)
  then show ?thesis by (rule observe_x_only) simp
qed

theorem gesture_ignores_y_witness:
  "observe (gesture (100, 0) [(70, 0), (-20, 0)]) threeSlides
     = observe (gesture (100, 5) [(70, 12), (-20, -3)]) threeSlides
   \<and> observe (gesture (100, 5) [(70, 12), (-20, -3)]) threeSlides
     = [(0, 0, None, [TouchClass True, Emit (Touch 0 [''a'', ''b'', ''c''] (Some ''a''))]),
        (-30, 0, None, [TranslateX (-30)]),
        (-120, 0, None, [TranslateX (-120)]),
        (0, 1, Some 1, [Emit (Change 1 (Some ''b'')), TouchClass False, TranslateX (-300),
                        SetTimeout 400])]"
  using gesture_ignores_y [of "(100, 0)" "(100, 5)" "[(70, 0), (-20, 0)]"
          "[(70, 12), (-20, -3)]" threeSlides]
  by (simp add: gesture_def threeSlides_def handleTouchStart_def handleTouchMove_def
      handleTouchEnd_def updateIndex_def changeSlide_def changeSlideFr_def diffCoords_def
      Let_def split_def decision_def translateFromOrigin_def translateSlide_def
      originForIndex_def returnToOrigin_def cssTouchClass_def childAt_def)

end
